theory Spec2Isabelle
  imports Complex_Main
begin

section \<open>Values: scalars, geometries, coordinate reference systems\<close>

text \<open>
  The program is \<^verbatim>\<open>src/gis/PointElevationUpdater.py\<close>: a class that samples a DEM
  raster at the points of a vector dataset and writes the elevated points out. Modelled
  are the methods \<^verbatim>\<open>_ensure_same_crs\<close>, \<^verbatim>\<open>_sample_elevations\<close>,
  \<^verbatim>\<open>update_z_values\<close>, \<^verbatim>\<open>export_shp\<close>, \<^verbatim>\<open>export_geojson\<close> and
  \<^verbatim>\<open>process_shapefile\<close> (a leading underscore is dropped from a name), over a model of
  the library calls they make. The constructor and \<^verbatim>\<open>process_folder\<close> are not modelled:
  the updater is given with its DEM already open.

  A scalar is a Python float or a numpy scalar taken out of a raster band. No arithmetic
  is done on scalars by the program; it only tests \<^verbatim>\<open>np.isfinite\<close> and passes
  them on (\<^verbatim>\<open>float(z)\<close> keeps the value). The finite values are therefore
  modelled by the reals they denote, next to the three non-finite ones.
\<close>

datatype scalar = Finite real | PosInf | NegInf | NaN

fun isfinite :: "scalar \<Rightarrow> bool" where
  "isfinite (Finite v) = True"
| "isfinite PosInf = False"
| "isfinite NegInf = False"
| "isfinite NaN = False"

text \<open>
  A geometry of the dataset's geometry column. \<open>NonPoint\<close> stands for every entry that
  has no \<^verbatim>\<open>.x\<close> and \<^verbatim>\<open>.y\<close> (a line, a polygon, a missing geometry): reading
  \<^verbatim>\<open>geom.x\<close> there raises.
\<close>

datatype geometry = Point2D scalar scalar | Point3D scalar scalar scalar | NonPoint

datatype error =
  AttributeError | ValueError | FileNotFoundError | FileExistsError
  | NotADirectoryError | IsADirectoryError | DataSourceError

fun geom_x :: "geometry \<Rightarrow> error + scalar" where
  "geom_x (Point2D x y) = Inr x"
| "geom_x (Point3D x y z) = Inr x"
| "geom_x NonPoint = Inl AttributeError"

fun geom_y :: "geometry \<Rightarrow> error + scalar" where
  "geom_y (Point2D x y) = Inr y"
| "geom_y (Point3D x y z) = Inr y"
| "geom_y NonPoint = Inl AttributeError"

fun is_point :: "geometry \<Rightarrow> bool" where
  "is_point NonPoint = False"
| "is_point g = True"

fun has_z :: "geometry \<Rightarrow> bool" where
  "has_z (Point3D x y z) = True"
| "has_z g = False"

datatype CRS = EPSG nat | WKT string

section \<open>The objects of the program\<close>

text \<open>
  A \<^verbatim>\<open>GeoDataFrame\<close>: its CRS (\<open>None\<close> when undefined) and its records in order, each
  the attribute fields \<open>'a\<close> of the record and its geometry.
\<close>

record 'a GeoDataFrame =
  crs :: "CRS option"
  rows :: "('a \<times> geometry) list"

definition geometry_col :: "'a GeoDataFrame \<Rightarrow> geometry list" where
  "geometry_col f = map snd (rows f)"

definition attribute_cols :: "'a GeoDataFrame \<Rightarrow> 'a list" where
  "attribute_cols f = map fst (rows f)"

text \<open>
  The opened raster (\<^verbatim>\<open>rasterio.open(dem_path)\<close>): its CRS, its number of bands and the
  value of each band at a coordinate. \<^verbatim>\<open>sample\<close> yields, for every coordinate in order,
  the array of the values of all bands there.
\<close>

record DatasetReader =
  dem_crs :: "CRS option"
  band_count :: nat
  band_at :: "nat \<Rightarrow> scalar \<times> scalar \<Rightarrow> scalar"

definition sample :: "DatasetReader \<Rightarrow> (scalar \<times> scalar) list \<Rightarrow> scalar list list" where
  "sample d coords = map (\<lambda>xy. map (\<lambda>b. band_at d b xy) [0..<band_count d]) coords"

record PointElevationUpdater =
  dem_path :: string
  dem :: DatasetReader

text \<open>
  What the wrapped libraries compute and the program never looks into: the coordinate
  transformation between two CRSs (on a 2D and on a 3D coordinate), and whether a format
  writer accepts a geometry column.
\<close>

record libs =
  transform2 :: "CRS \<Rightarrow> CRS \<Rightarrow> scalar \<times> scalar \<Rightarrow> scalar \<times> scalar"
  transform3 :: "CRS \<Rightarrow> CRS \<Rightarrow> scalar \<times> scalar \<times> scalar \<Rightarrow> scalar \<times> scalar \<times> scalar"
  writer_accepts :: "string \<Rightarrow> geometry list \<Rightarrow> bool"

fun reproject :: "libs \<Rightarrow> CRS \<Rightarrow> CRS \<Rightarrow> geometry \<Rightarrow> geometry" where
  "reproject L s d (Point2D x y) = (case transform2 L s d (x, y) of (x', y') \<Rightarrow> Point2D x' y')"
| "reproject L s d (Point3D x y z) =
     (case transform3 L s d (x, y, z) of (x', y', z') \<Rightarrow> Point3D x' y' z')"
| "reproject L s d NonPoint = NonPoint"

section \<open>The world: object store, file system, trace of effects\<close>

record 'a vector_file =
  driver :: string
  encoding :: string
  content :: "'a GeoDataFrame"

datatype log_msg =
  CrsMismatch | ShapefileExported string | GeoJSONExported string | Processing string

datatype event =
  LogInfo log_msg | ToCrs "CRS option" | Sample nat | MakeDirs string
  | ToFile string string | ReadFile string

text \<open>
  Data frames are objects: a variable holds a reference, here the index of the object in
  \<open>heap\<close>. A new object is appended, so a reference once handed out keeps its meaning;
  the references a program holds are below the length of the heap.
  \<open>dirs\<close> and \<open>files\<close> are the directories and vector files on disk, by path as
  written; \<open>trace\<close> records the log lines and library calls in the order they happen.
\<close>

record 'a world =
  heap :: "'a GeoDataFrame list"
  dirs :: "string set"
  files :: "string \<Rightarrow> 'a vector_file option"
  trace :: "event list"

type_synonym ('a, 'r) action = "'a world \<Rightarrow> (error + 'r) \<times> 'a world"

definition and_then :: "('a, 'r) action \<Rightarrow> ('r \<Rightarrow> ('a, 'q) action) \<Rightarrow> ('a, 'q) action" where
  "and_then m k w = (case m w of (Inl e, w') \<Rightarrow> (Inl e, w') | (Inr v, w') \<Rightarrow> k v w')"

definition emit :: "event \<Rightarrow> 'a world \<Rightarrow> 'a world" where
  "emit ev w = w\<lparr>trace := trace w @ [ev]\<rparr>"

definition logging_info :: "log_msg \<Rightarrow> ('a, unit) action" where
  "logging_info m w = (Inr (), emit (LogInfo m) w)"

definition alloc :: "'a GeoDataFrame \<Rightarrow> 'a world \<Rightarrow> nat \<times> 'a world" where
  "alloc f w = (length (heap w), w\<lparr>heap := heap w @ [f]\<rparr>)"

section \<open>The library calls the program makes\<close>

subsection \<open>\<^verbatim>\<open>os.path\<close> on POSIX paths\<close>

definition sep :: char where
  "sep = CHR ''/''"

definition split_head :: "string \<Rightarrow> string" where
  \<comment> \<open>\<^verbatim>\<open>p[:i]\<close> for \<^verbatim>\<open>i = p.rfind('/') + 1\<close>\<close>
  "split_head p = rev (dropWhile (\<lambda>c. c \<noteq> sep) (rev p))"

definition split_tail :: "string \<Rightarrow> string" where
  \<comment> \<open>\<^verbatim>\<open>p[i:]\<close> for the same \<^verbatim>\<open>i\<close>\<close>
  "split_tail p = rev (takeWhile (\<lambda>c. c \<noteq> sep) (rev p))"

definition rstrip_sep :: "string \<Rightarrow> string" where
  "rstrip_sep h = rev (dropWhile (\<lambda>c. c = sep) (rev h))"

definition all_sep :: "string \<Rightarrow> bool" where
  "all_sep h = list_all (\<lambda>c. c = sep) h"

definition dirname :: "string \<Rightarrow> string" where
  "dirname p =
     (let h = split_head p in if h \<noteq> [] \<and> \<not> all_sep h then rstrip_sep h else h)"

definition basename :: "string \<Rightarrow> string" where
  "basename p = split_tail p"

definition splitext :: "string \<Rightarrow> string \<times> string" where
  \<comment> \<open>the extension starts at the last dot of the last component, leading dots apart\<close>
  "splitext p =
     (let name = split_tail p;
          stem = rev (drop 1 (dropWhile (\<lambda>c. c \<noteq> CHR ''.'') (rev name)))
      in if CHR ''.'' \<in> set name \<and> \<not> list_all (\<lambda>c. c = CHR ''.'') stem
         then (split_head p @ stem, drop (length stem) name)
         else (p, []))"

definition join :: "string \<Rightarrow> string \<Rightarrow> string" where
  "join a b =
     (if b \<noteq> [] \<and> hd b = sep then b
      else if a = [] \<or> last a = sep then a @ b
      else a @ [sep] @ b)"

subsection \<open>The file system\<close>

definition ancestors :: "string \<Rightarrow> string list" where
  \<comment> \<open>the intermediate directories of a path: its prefixes that end before a separator\<close>
  "ancestors name =
     filter (\<lambda>d. d \<noteq> [])
       (map (\<lambda>i. rstrip_sep (take i name)) (filter (\<lambda>i. name ! i = sep) [0..<length name]))"

definition dir_exists :: "'a world \<Rightarrow> string \<Rightarrow> bool" where
  \<comment> \<open>the current directory (the empty path) and the root always exist\<close>
  "dir_exists w d = (all_sep d \<or> d \<in> dirs w)"

text \<open>
  \<^verbatim>\<open>os.makedirs(name, exist_ok=True)\<close>: creates the directory and the intermediate ones;
  an existing directory is no error. The empty name is refused by the operating system
  (\<^verbatim>\<open>FileNotFoundError\<close>), and so is a name that is, or passes through, a file.
\<close>

definition makedirs :: "string \<Rightarrow> ('a, unit) action" where
  "makedirs name w =
     (let w1 = emit (MakeDirs name) w in
      if name = [] then (Inl FileNotFoundError, w1)
      else if files w name \<noteq> None then (Inl FileExistsError, w1)
      else if list_ex (\<lambda>d. files w d \<noteq> None) (ancestors name)
        then (Inl NotADirectoryError, w1)
      else (Inr (), w1\<lparr>dirs := dirs w1 \<union> set (name # ancestors name)\<rparr>))"

subsection \<open>\<^verbatim>\<open>geopandas\<close>\<close>

text \<open>
  \<^verbatim>\<open>gpd.read_file(path)\<close> makes a new data frame from the file at the path. The vector
  file (for a shapefile, the group of files around the \<^verbatim>\<open>.shp\<close>) is one entry of
  \<open>files\<close>.
\<close>

definition read_file :: "string \<Rightarrow> ('a, nat) action" where
  "read_file path w =
     (let w1 = emit (ReadFile path) w in
      case files w path of
        None \<Rightarrow> (Inl DataSourceError, w1)
      | Some vf \<Rightarrow> (case alloc (content vf) w1 of (r, w2) \<Rightarrow> (Inr r, w2)))"

definition copy :: "nat \<Rightarrow> ('a, nat) action" where
  "copy r w = (case alloc (heap w ! r) w of (u, w') \<Rightarrow> (Inr u, w'))"

text \<open>
  \<^verbatim>\<open>gdf.to_crs(crs)\<close> and \<^verbatim>\<open>gdf.to_crs(epsg=n)\<close> return a new data frame and leave
  \<^verbatim>\<open>gdf\<close> alone. geopandas raises \<^verbatim>\<open>ValueError\<close> when the frame has no CRS ("Cannot
  transform naive geometries") and when no target is given ("Must pass either crs or
  epsg"); it keeps the coordinates when source and target are the same CRS. (The copy
  that geopandas makes before it raises is dropped at once and is not modelled.)
\<close>

definition to_crs :: "libs \<Rightarrow> nat \<Rightarrow> CRS option \<Rightarrow> ('a, nat) action" where
  "to_crs L r target w =
     (let f = heap w ! r; w1 = emit (ToCrs target) w in
      case crs f of
        None \<Rightarrow> (Inl ValueError, w1)
      | Some s \<Rightarrow>
          (case target of
             None \<Rightarrow> (Inl ValueError, w1)
           | Some d \<Rightarrow>
               (case alloc
                   (f\<lparr>crs := Some d,
                      rows := map (\<lambda>(a, g). (a, if s = d then g else reproject L s d g)) (rows f)\<rparr>)
                   w1 of
                  (u, w2) \<Rightarrow> (Inr u, w2))))"

text \<open>
  \<^verbatim>\<open>frame.geometry = new_geoms\<close> replaces the geometry column of the object in place and
  keeps the frame's CRS; pandas raises \<^verbatim>\<open>ValueError\<close> when the list has not one entry
  per record.
\<close>

definition set_geometry :: "nat \<Rightarrow> geometry list \<Rightarrow> ('a, unit) action" where
  "set_geometry r gs w =
     (let f = heap w ! r in
      if length gs \<noteq> length (rows f) then (Inl ValueError, w)
      else (Inr (), w\<lparr>heap := (heap w)[r := f\<lparr>rows := zip (map fst (rows f)) gs\<rparr>]\<rparr>))"

text \<open>
  What a format writer stores of a frame. A shapefile holds one shape type: when any
  geometry of the frame has a z, the ESRI Shapefile writer stores every point with a z,
  which is 0 for the points that had none. The other writers store the geometries as
  they are. CRS, records and attributes are stored as they are handed over.
\<close>

fun force_z :: "geometry \<Rightarrow> geometry" where
  "force_z (Point2D x y) = Point3D x y (Finite 0)"
| "force_z g = g"

definition written :: "string \<Rightarrow> 'a GeoDataFrame \<Rightarrow> 'a GeoDataFrame" where
  "written drv f =
     (if drv = ''ESRI Shapefile'' \<and> list_ex has_z (geometry_col f)
      then f\<lparr>rows := map (\<lambda>(a, g). (a, force_z g)) (rows f)\<rparr>
      else f)"

definition names_directory :: "'a world \<Rightarrow> string \<Rightarrow> bool" where
  \<comment> \<open>the current directory, the root, a path that ends in a separator, a directory\<close>
  "names_directory w path = (all_sep path \<or> last path = sep \<or> path \<in> dirs w)"

text \<open>
  \<^verbatim>\<open>gdf.to_file(path, driver=..., encoding=...)\<close> hands the frame as it is to the writer
  of the format, which writes over whatever the path held. It raises
  \<^verbatim>\<open>IsADirectoryError\<close> when the path names a directory, and fails when the directory
  of the path does not exist or when the format's writer refuses the geometries.
\<close>

definition to_file :: "libs \<Rightarrow> nat \<Rightarrow> string \<Rightarrow> string \<Rightarrow> string \<Rightarrow> ('a, unit) action" where
  "to_file L r path drv enc w =
     (let f = heap w ! r; w1 = emit (ToFile drv path) w in
      if names_directory w path then (Inl IsADirectoryError, w1)
      else if dir_exists w (dirname path) \<and> writer_accepts L drv (geometry_col f)
      then (Inr (),
            w1\<lparr>files := (files w1)(path \<mapsto>
                  \<lparr>driver = drv, encoding = enc, content = written drv f\<rparr>)\<rparr>)
      else (Inl DataSourceError, w1))"

section \<open>The methods of \<^verbatim>\<open>PointElevationUpdater\<close>\<close>

text \<open>A comprehension or a loop over a list that stops at the first element that raises.\<close>

fun for_each :: "('x \<Rightarrow> error + 'y) \<Rightarrow> 'x list \<Rightarrow> error + 'y list" where
  "for_each f [] = Inr []"
| "for_each f (x # xs) =
     (case f x of
        Inl e \<Rightarrow> Inl e
      | Inr y \<Rightarrow> (case for_each f xs of Inl e \<Rightarrow> Inl e | Inr ys \<Rightarrow> Inr (y # ys)))"

definition ensure_same_crs :: "libs \<Rightarrow> PointElevationUpdater \<Rightarrow> nat \<Rightarrow> ('a, nat) action" where
  "ensure_same_crs L self gdf w =
     (if crs (heap w ! gdf) \<noteq> dem_crs (dem self)
      then and_then (logging_info CrsMismatch) (\<lambda>_. to_crs L gdf (dem_crs (dem self))) w
      else (Inr gdf, w))"

definition coord_of :: "geometry \<Rightarrow> error + scalar \<times> scalar" where
  "coord_of geom =
     (case geom_x geom of
        Inl e \<Rightarrow> Inl e
      | Inr x \<Rightarrow> (case geom_y geom of Inl e \<Rightarrow> Inl e | Inr y \<Rightarrow> Inr (x, y)))"

text \<open>
  \<^verbatim>\<open>np.array(elevations).flatten()\<close> lays the per-coordinate arrays of band values end to
  end. The progress bar only passes the samples through.
\<close>

definition sample_elevations :: "PointElevationUpdater \<Rightarrow> nat \<Rightarrow> ('a, scalar list) action" where
  "sample_elevations self gdf w =
     (case for_each coord_of (geometry_col (heap w ! gdf)) of
        Inl e \<Rightarrow> (Inl e, w)
      | Inr coords \<Rightarrow>
          (Inr (concat (sample (dem self) coords)), emit (Sample (length coords)) w))"

definition new_geom :: "geometry \<times> scalar \<Rightarrow> error + geometry" where
  "new_geom p =
     (case p of (geom, z) \<Rightarrow>
        if isfinite z
        then (case geom_x geom of
                Inl e \<Rightarrow> Inl e
              | Inr x \<Rightarrow> (case geom_y geom of Inl e \<Rightarrow> Inl e | Inr y \<Rightarrow> Inr (Point3D x y z)))
        else Inr geom)"

definition update_z_values :: "libs \<Rightarrow> PointElevationUpdater \<Rightarrow> nat \<Rightarrow> ('a, nat) action" where
  "update_z_values L self gdf0 =
     and_then (ensure_same_crs L self gdf0) (\<lambda>gdf.
     and_then (sample_elevations self gdf) (\<lambda>elevations w.
       case for_each new_geom (zip (geometry_col (heap w ! gdf)) elevations) of
         Inl e \<Rightarrow> (Inl e, w)
       | Inr new_geoms \<Rightarrow>
           and_then (copy gdf) (\<lambda>updated.
           and_then (set_geometry updated new_geoms) (\<lambda>_ w'. (Inr updated, w'))) w))"

definition export_shp :: "libs \<Rightarrow> nat \<Rightarrow> string \<Rightarrow> ('a, unit) action" where
  "export_shp L gdf output_path =
     and_then (makedirs (dirname output_path)) (\<lambda>_.
     and_then (to_file L gdf output_path ''ESRI Shapefile'' ''utf-8'') (\<lambda>_.
       logging_info (ShapefileExported output_path)))"

definition export_geojson :: "libs \<Rightarrow> nat \<Rightarrow> string \<Rightarrow> ('a, unit) action" where
  "export_geojson L gdf0 output_path =
     and_then (makedirs (dirname output_path)) (\<lambda>_.
     and_then (to_crs L gdf0 (Some (EPSG 4326))) (\<lambda>gdf.
     and_then (to_file L gdf output_path ''GeoJSON'' ''utf-8'') (\<lambda>_.
       logging_info (GeoJSONExported output_path))))"

definition shp_out :: "string \<Rightarrow> string \<Rightarrow> string" where
  "shp_out shp_path out_dir = join out_dir (fst (splitext (basename shp_path)) @ ''_Z.shp'')"

definition json_out :: "string \<Rightarrow> string \<Rightarrow> string" where
  "json_out shp_path out_dir =
     join out_dir (fst (splitext (basename shp_path)) @ ''_Z.geojson'')"

definition process_shapefile ::
  "libs \<Rightarrow> PointElevationUpdater \<Rightarrow> string \<Rightarrow> string \<Rightarrow> ('a, unit) action" where
  "process_shapefile L self shp_path out_dir =
     and_then (logging_info (Processing shp_path)) (\<lambda>_.
     and_then (read_file shp_path) (\<lambda>gdf.
     and_then (update_z_values L self gdf) (\<lambda>updated.
     and_then (export_shp L updated (shp_out shp_path out_dir)) (\<lambda>_.
       export_geojson L updated (json_out shp_path out_dir)))))"

section \<open>A concrete scene\<close>

text \<open>
  The scene of the specification's scenarios: a one-band DEM in EPSG:32633 that is 100
  over the square from (0,0) to (10,10) and has no data elsewhere; three points, one
  inside, one outside, one already 3D; the same points with another CRS and with none;
  and two shapefiles on disk, of 2D points, one of them without CRS. The stand-in
  coordinate transformation swaps x and y.
\<close>

definition ex_libs :: libs where
  "ex_libs =
     \<lparr>transform2 = (\<lambda>s d xy. case xy of (x, y) \<Rightarrow> (y, x)),
      transform3 = (\<lambda>s d xyz. case xyz of (x, y, z) \<Rightarrow> (y, x, z)),
      writer_accepts = (\<lambda>drv gs. True)\<rparr>"

definition flat_dem :: DatasetReader where
  "flat_dem =
     \<lparr>dem_crs = Some (EPSG 32633), band_count = 1,
      band_at = (\<lambda>b xy. case xy of
         (Finite x, Finite y) \<Rightarrow>
           if 0 \<le> x \<and> x \<le> 10 \<and> 0 \<le> y \<and> y \<le> 10 then Finite 100 else NaN
       | _ \<Rightarrow> NaN)\<rparr>"

definition updater :: PointElevationUpdater where
  "updater = \<lparr>dem_path = ''example.tif'', dem = flat_dem\<rparr>"

definition bare_updater :: PointElevationUpdater where
  "bare_updater = \<lparr>dem_path = ''bare.tif'', dem = flat_dem\<lparr>dem_crs := None\<rparr>\<rparr>"

definition pts :: "string GeoDataFrame" where
  "pts =
     \<lparr>crs = Some (EPSG 32633),
      rows = [(''a'', Point2D (Finite 5) (Finite 5)),
              (''b'', Point2D (Finite 1000) (Finite 1000)),
              (''c'', Point3D (Finite 2) (Finite 3) (Finite 0))]\<rparr>"

definition pts_file :: "string GeoDataFrame" where
  "pts_file =
     \<lparr>crs = Some (EPSG 32633),
      rows = [(''a'', Point2D (Finite 5) (Finite 5)),
              (''b'', Point2D (Finite 1000) (Finite 1000)),
              (''c'', Point2D (Finite 2) (Finite 3))]\<rparr>"

definition world0 :: "string world" where
  "world0 =
     \<lparr>heap = [pts, pts\<lparr>crs := Some (EPSG 4326)\<rparr>, pts\<lparr>crs := None\<rparr>, \<lparr>crs = None, rows = []\<rparr>],
      dirs = {},
      files = [''in/pts.shp'' \<mapsto>
                 \<lparr>driver = ''ESRI Shapefile'', encoding = ''utf-8'', content = pts_file\<rparr>,
               ''in/naive.shp'' \<mapsto>
                 \<lparr>driver = ''ESRI Shapefile'', encoding = ''utf-8'',
                  content = pts_file\<lparr>crs := None\<rparr>\<rparr>],
      trace = []\<rparr>"

section \<open>Unfolding the model\<close>

lemmas run_defs =
  and_then_def emit_def logging_info_def alloc_def read_file_def copy_def to_crs_def
  set_geometry_def written_def names_directory_def to_file_def makedirs_def dir_exists_def
  ensure_same_crs_def
  sample_elevations_def sample_def coord_of_def new_geom_def update_z_values_def
  export_shp_def export_geojson_def process_shapefile_def geometry_col_def
  attribute_cols_def Let_def

lemmas path_defs =
  sep_def split_head_def split_tail_def rstrip_sep_def all_sep_def dirname_def basename_def
  splitext_def join_def ancestors_def shp_out_def json_out_def

lemmas ex_defs =
  ex_libs_def flat_dem_def updater_def bare_updater_def pts_def pts_file_def world0_def

section \<open>Facts about the methods\<close>

lemma for_each_length: "for_each f xs = Inr ys \<Longrightarrow> length ys = length xs"
  by (induction xs arbitrary: ys) (auto split: sum.splits)

lemma for_each_nth: "for_each f xs = Inr ys \<Longrightarrow> i < length xs \<Longrightarrow> f (xs ! i) = Inr (ys ! i)"
proof (induction xs arbitrary: ys i)
  case Nil
  then show ?case by simp
next
  case (Cons x xs)
  then show ?case by (cases i) (auto split: sum.splits)
qed

lemma for_each_total:
  "list_all (\<lambda>x. \<exists>y. f x = Inr y) xs \<Longrightarrow> \<exists>ys. for_each f xs = Inr ys"
  by (induction xs) auto

lemma ensure_same_crs_cases:
  "ensure_same_crs L self r w = (Inr g, w1) \<Longrightarrow>
     (g = r \<and> w1 = w \<and> crs (heap w ! r) = dem_crs (dem self)) \<or>
     (\<exists>s d. crs (heap w ! r) = Some s \<and> dem_crs (dem self) = Some d \<and> s \<noteq> d \<and>
        g = length (heap w) \<and>
        w1 = (emit (ToCrs (Some d)) (emit (LogInfo CrsMismatch) w))
               \<lparr>heap := heap w @ [(heap w ! r)\<lparr>crs := Some d,
                   rows := map (\<lambda>(a, g). (a, reproject L s d g)) (rows (heap w ! r))\<rparr>]\<rparr>)"
  by (auto simp: ensure_same_crs_def and_then_def logging_info_def to_crs_def alloc_def emit_def
      Let_def split: if_splits option.splits)

lemma ensure_same_crs_total:
  assumes "crs (heap w ! r) = dem_crs (dem self) \<or>
     (crs (heap w ! r) \<noteq> None \<and> dem_crs (dem self) \<noteq> None)"
  shows "\<exists>g w1. ensure_same_crs L self r w = (Inr g, w1)"
  using assms
  by (auto simp: ensure_same_crs_def and_then_def logging_info_def to_crs_def alloc_def emit_def
      Let_def)

lemma is_point_reproject: "is_point (reproject L s d g) = is_point g"
  by (cases g) (auto split: prod.splits)

lemma ensure_same_crs_heap:
  assumes "ensure_same_crs L self r w = (Inr g, w1)"
  shows "attribute_cols (heap w1 ! g) = attribute_cols (heap w ! r)"
    and "length (rows (heap w1 ! g)) = length (rows (heap w ! r))"
    and "take (length (heap w)) (heap w1) = heap w"
    and "list_all is_point (geometry_col (heap w1 ! g)) = list_all is_point (geometry_col (heap w ! r))"
    and "crs (heap w1 ! g) = dem_crs (dem self)"
  using ensure_same_crs_cases [OF assms]
  by (fastforce simp: attribute_cols_def geometry_col_def emit_def split_def comp_def
      is_point_reproject list_all_iff)+

lemma update_z_values_InrE:
  assumes "update_z_values L self r w = (Inr u, w')"
  obtains g w1 coords ngs where
    "ensure_same_crs L self r w = (Inr g, w1)"
    "for_each coord_of (geometry_col (heap w1 ! g)) = Inr coords"
    "for_each new_geom (zip (geometry_col (heap w1 ! g)) (concat (sample (dem self) coords))) =
       Inr ngs"
    "length ngs = length (rows (heap w1 ! g))"
    "u = length (heap w1)"
    "w' = (emit (Sample (length coords)) w1)
            \<lparr>heap := heap w1 @ [(heap w1 ! g)\<lparr>rows := zip (map fst (rows (heap w1 ! g))) ngs\<rparr>]\<rparr>"
proof -
  from assms have "\<exists>g w1 coords ngs.
     ensure_same_crs L self r w = (Inr g, w1) \<and>
     for_each coord_of (geometry_col (heap w1 ! g)) = Inr coords \<and>
     for_each new_geom (zip (geometry_col (heap w1 ! g)) (concat (sample (dem self) coords))) =
       Inr ngs \<and>
     length ngs = length (rows (heap w1 ! g)) \<and>
     u = length (heap w1) \<and>
     w' = (emit (Sample (length coords)) w1)
            \<lparr>heap := heap w1 @ [(heap w1 ! g)\<lparr>rows := zip (map fst (rows (heap w1 ! g))) ngs\<rparr>]\<rparr>"
    by (auto simp: update_z_values_def and_then_def sample_elevations_def copy_def alloc_def
        set_geometry_def emit_def Let_def
        split: prod.splits sum.splits if_splits)
  then show thesis
    by (elim exE conjE) (rule that)
qed

lemma update_z_values_InrI:
  assumes "ensure_same_crs L self r w = (Inr g, w1)"
    and "for_each coord_of (geometry_col (heap w1 ! g)) = Inr coords"
    and "for_each new_geom (zip (geometry_col (heap w1 ! g)) (concat (sample (dem self) coords))) =
       Inr ngs"
    and "length ngs = length (rows (heap w1 ! g))"
  shows "fst (update_z_values L self r w) = Inr (length (heap w1))"
  using assms
  by (simp add: update_z_values_def and_then_def sample_elevations_def copy_def alloc_def
      set_geometry_def emit_def Let_def)

lemma coord_of_point: "is_point g \<Longrightarrow> \<exists>x y. coord_of g = Inr (x, y)"
  by (cases g) (simp_all add: coord_of_def)

lemma new_geom_point: "is_point g \<Longrightarrow> \<exists>g'. new_geom (g, z) = Inr g'"
  by (cases g) (simp_all add: new_geom_def)

lemma length_concat_sample: "length (concat (sample d coords)) = length coords * band_count d"
  by (induction coords) (simp_all add: sample_def)

lemma update_z_values_total:
  assumes points: "list_all is_point (geometry_col (heap w ! r))"
    and crs_ok: "crs (heap w ! r) = dem_crs (dem self) \<or>
       (crs (heap w ! r) \<noteq> None \<and> dem_crs (dem self) \<noteq> None)"
    and bands: "1 \<le> band_count (dem self) \<or> rows (heap w ! r) = []"
  shows "\<exists>u. fst (update_z_values L self r w) = Inr u"
proof -
  from ensure_same_crs_total [OF crs_ok]
  obtain g w1 where e: "ensure_same_crs L self r w = (Inr g, w1)"
    by blast
  let ?gs = "geometry_col (heap w1 ! g)"
  have p: "list_all is_point ?gs"
    using ensure_same_crs_heap(4) [OF e] points by simp
  have n: "length ?gs = length (rows (heap w ! r))"
    using ensure_same_crs_heap(2) [OF e] by (simp add: geometry_col_def)
  from p have "list_all (\<lambda>x. \<exists>y. coord_of x = Inr y) ?gs"
    by (simp add: list_all_iff coord_of_point)
  from for_each_total [OF this]
  obtain coords where c: "for_each coord_of ?gs = Inr coords"
    by blast
  let ?zs = "concat (sample (dem self) coords)"
  from p have "list_all (\<lambda>x. \<exists>y. new_geom x = Inr y) (zip ?gs ?zs)"
    by (auto simp: list_all_iff new_geom_point dest: set_zip_leftD)
  from for_each_total [OF this]
  obtain ngs where ng: "for_each new_geom (zip ?gs ?zs) = Inr ngs"
    by blast
  have "length ?zs = length ?gs * band_count (dem self)"
    using for_each_length [OF c] by (simp add: length_concat_sample)
  with bands n have "length (zip ?gs ?zs) = length ?gs"
    by auto
  with for_each_length [OF ng] have "length ngs = length (rows (heap w1 ! g))"
    by (simp add: geometry_col_def)
  from update_z_values_InrI [OF e c ng this] show ?thesis
    by blast
qed

lemma new_geom_finite:
  "isfinite z \<Longrightarrow> new_geom (g, z) = Inr g' \<Longrightarrow>
     \<exists>x y. geom_x g = Inr x \<and> geom_y g = Inr y \<and> g' = Point3D x y z"
  by (auto simp: new_geom_def split: sum.splits)

lemma new_geom_nonfinite: "\<not> isfinite z \<Longrightarrow> new_geom (g, z) = Inr g' \<Longrightarrow> g' = g"
  by (simp add: new_geom_def)

lemma update_z_values_shape:
  assumes "update_z_values L self r w = (Inr u, w')"
  shows "attribute_cols (heap w' ! u) = attribute_cols (heap w ! r)"
    and "length (rows (heap w' ! u)) = length (rows (heap w ! r))"
    and "crs (heap w' ! u) = dem_crs (dem self)"
    and "length (heap w) \<le> u"
    and "u < length (heap w')"
proof -
  from assms obtain g w1 coords ngs where
    e: "ensure_same_crs L self r w = (Inr g, w1)"
    and c: "for_each coord_of (geometry_col (heap w1 ! g)) = Inr coords"
    and n: "for_each new_geom
        (zip (geometry_col (heap w1 ! g)) (concat (sample (dem self) coords))) = Inr ngs"
    and l: "length ngs = length (rows (heap w1 ! g))"
    and u: "u = length (heap w1)"
    and w': "w' = (emit (Sample (length coords)) w1)
       \<lparr>heap := heap w1 @ [(heap w1 ! g)\<lparr>rows := zip (map fst (rows (heap w1 ! g))) ngs\<rparr>]\<rparr>"
    by (rule update_z_values_InrE)
  have f: "heap w' ! u = (heap w1 ! g)\<lparr>rows := zip (map fst (rows (heap w1 ! g))) ngs\<rparr>"
    by (simp add: u w' emit_def)
  from ensure_same_crs_heap(1,2) [OF e] l
  show "attribute_cols (heap w' ! u) = attribute_cols (heap w ! r)"
    and "length (rows (heap w' ! u)) = length (rows (heap w ! r))"
    by (simp_all add: f attribute_cols_def)
  from ensure_same_crs_heap(5) [OF e]
  show "crs (heap w' ! u) = dem_crs (dem self)"
    by (simp add: f)
  have "length (take (length (heap w)) (heap w1)) = length (heap w)"
    using ensure_same_crs_heap(3) [OF e] by simp
  then show "length (heap w) \<le> u"
    by (simp add: u)
  show "u < length (heap w')"
    by (simp add: u w' emit_def)
qed

lemma to_crs_keeps: "take (length (heap w)) (heap (snd (to_crs L r t w))) = heap w"
  by (simp add: to_crs_def alloc_def emit_def Let_def split: option.splits)

lemma ensure_same_crs_keeps:
  "take (length (heap w)) (heap (snd (ensure_same_crs L self r w))) = heap w"
  using to_crs_keeps [of "emit (LogInfo CrsMismatch) w" L r "dem_crs (dem self)"]
  by (simp add: ensure_same_crs_def and_then_def logging_info_def emit_def)

lemma update_z_values_keeps:
  "take (length (heap w)) (heap (snd (update_z_values L self r w))) = heap w"
proof (cases "ensure_same_crs L self r w")
  case (Pair res w1)
  note k = ensure_same_crs_keeps [of w L self r, unfolded Pair, simplified]
  then have len: "length (heap w) \<le> length (heap w1)"
    by (metis length_take min.cobounded2 min.commute)
  show ?thesis
  proof (cases res)
    case (Inl e)
    with Pair k show ?thesis
      by (simp add: update_z_values_def and_then_def)
  next
    case (Inr g)
    with Pair k len show ?thesis
      by (auto simp: update_z_values_def and_then_def sample_elevations_def copy_def alloc_def
          set_geometry_def emit_def Let_def split: sum.splits)
  qed
qed

lemma concat_sample_one_band:
  "band_count d = 1 \<Longrightarrow> concat (sample d coords) = map (band_at d 0) coords"
  by (induction coords) (simp_all add: sample_def)

lemma sample_elevations_aligned:
  assumes "band_count (dem self) = 1"
    and "sample_elevations self g w = (Inr zs, w')"
    and "i < length (rows (heap w ! g))"
  shows "\<exists>x y. coord_of (geometry_col (heap w ! g) ! i) = Inr (x, y) \<and>
     zs ! i = band_at (dem self) 0 (x, y)"
proof -
  from assms(2) obtain coords where
    c: "for_each coord_of (geometry_col (heap w ! g)) = Inr coords"
    and zs: "zs = concat (sample (dem self) coords)"
    by (auto simp: sample_elevations_def split: sum.splits)
  from assms(3) have i: "i < length (geometry_col (heap w ! g))"
    by (simp add: geometry_col_def)
  with for_each_length [OF c] have "i < length coords"
    by simp
  then have "zs ! i = band_at (dem self) 0 (coords ! i)"
    by (simp add: zs concat_sample_one_band [OF assms(1)])
  with for_each_nth [OF c i] show ?thesis
    by (cases "coords ! i") simp
qed

lemma crs_written: "crs (written drv f) = crs f"
  by (simp add: written_def)

lemma attribute_cols_written: "attribute_cols (written drv f) = attribute_cols f"
  by (simp add: written_def attribute_cols_def split_def comp_def)

lemma geom_xy_force_z: "geom_x (force_z g) = geom_x g" "geom_y (force_z g) = geom_y g"
  by (cases g; simp)+

lemma geom_xy_written:
  "map geom_x (geometry_col (written drv f)) = map geom_x (geometry_col f)"
  "map geom_y (geometry_col (written drv f)) = map geom_y (geometry_col f)"
  by (simp_all add: written_def geometry_col_def split_def comp_def geom_xy_force_z)

lemma written_other_driver: "drv \<noteq> ''ESRI Shapefile'' \<Longrightarrow> written drv f = f"
  by (simp add: written_def)

lemma written_no_z: "\<not> list_ex has_z (geometry_col f) \<Longrightarrow> written drv f = f"
  by (simp add: written_def)

lemma force_z_has_z: "has_z g \<Longrightarrow> force_z g = g"
  by (cases g) simp_all

lemma written_all_z: "list_all has_z (geometry_col f) \<Longrightarrow> written drv f = f"
proof -
  assume a: "list_all has_z (geometry_col f)"
  then have "map (\<lambda>(a, g). (a, force_z g)) (rows f) = rows f"
    by (intro map_idI) (auto simp: geometry_col_def list_all_iff force_z_has_z)
  then show ?thesis
    by (simp add: written_def)
qed

lemma export_shp_heap: "heap (snd (export_shp L r p w)) = heap w"
  by (simp add: export_shp_def and_then_def makedirs_def to_file_def logging_info_def emit_def
      Let_def)

lemma export_shp_Inr:
  assumes "export_shp L r p w = (Inr (), w')"
  shows "files w' = (files w)(p \<mapsto>
        \<lparr>driver = ''ESRI Shapefile'', encoding = ''utf-8'',
         content = written ''ESRI Shapefile'' (heap w ! r)\<rparr>)"
    and "dirname p \<in> dirs w'"
    and "trace w' = trace w @
        [MakeDirs (dirname p), ToFile ''ESRI Shapefile'' p, LogInfo (ShapefileExported p)]"
  using assms
  by (auto simp: export_shp_def and_then_def makedirs_def to_file_def logging_info_def emit_def
      Let_def split: if_splits)

lemma export_shp_Inl: "export_shp L r p w = (Inl e, w') \<Longrightarrow> files w' = files w"
  by (auto simp: export_shp_def and_then_def makedirs_def to_file_def logging_info_def emit_def
      Let_def split: if_splits)

lemma export_geojson_keeps:
  "take (length (heap w)) (heap (snd (export_geojson L r p w))) = heap w"
  by (simp add: export_geojson_def and_then_def makedirs_def to_crs_def alloc_def to_file_def
      logging_info_def emit_def Let_def split: option.splits)

lemma export_geojson_Inr:
  assumes "export_geojson L r p w = (Inr (), w')"
  shows "\<exists>s. crs (heap w ! r) = Some s \<and>
      files w' = (files w)(p \<mapsto>
        \<lparr>driver = ''GeoJSON'', encoding = ''utf-8'',
         content = \<lparr>crs = Some (EPSG 4326),
           rows = map (\<lambda>(a, g). (a, if s = EPSG 4326 then g else reproject L s (EPSG 4326) g))
                    (rows (heap w ! r))\<rparr>\<rparr>)"
    and "dirname p \<in> dirs w'"
    and "trace w' = trace w @
        [MakeDirs (dirname p), ToCrs (Some (EPSG 4326)), ToFile ''GeoJSON'' p,
         LogInfo (GeoJSONExported p)]"
  using assms
  by (auto simp: export_geojson_def and_then_def makedirs_def to_crs_def alloc_def to_file_def
      written_def logging_info_def emit_def Let_def split: if_splits option.splits)

lemma export_geojson_Inl: "export_geojson L r p w = (Inl e, w') \<Longrightarrow> files w' = files w"
  by (auto simp: export_geojson_def and_then_def makedirs_def to_crs_def alloc_def to_file_def
      logging_info_def emit_def Let_def split: if_splits option.splits)

lemma export_geojson_other_files:
  "q \<noteq> p \<Longrightarrow> files (snd (export_geojson L r q w)) p = files w p"
  by (simp add: export_geojson_def and_then_def makedirs_def to_crs_def alloc_def to_file_def
      logging_info_def emit_def Let_def split: option.splits)

lemma export_shp_succeeds:
  assumes "dirname p \<noteq> []"
    and "last p \<noteq> sep"
    and "files w (dirname p) = None"
    and "\<not> list_ex (\<lambda>d. files w d \<noteq> None) (ancestors (dirname p))"
    and "p \<notin> dirs w \<union> set (dirname p # ancestors (dirname p))"
    and "writer_accepts L ''ESRI Shapefile'' (geometry_col (heap w ! r))"
  shows "fst (export_shp L r p w) = Inr ()"
proof -
  from assms(1) have "p \<noteq> []"
    by (auto simp: dirname_def split_head_def)
  with assms(2) have "\<not> all_sep p"
    by (auto simp: all_sep_def list_all_iff)
  with assms show ?thesis
    by (simp add: export_shp_def and_then_def makedirs_def to_file_def dir_exists_def
        names_directory_def logging_info_def emit_def Let_def)
qed

lemma export_dir_path:
  "last p = sep \<Longrightarrow> fst (export_shp L r p w) \<noteq> Inr () \<and> fst (export_geojson L r p w) \<noteq> Inr ()"
  by (simp add: export_shp_def export_geojson_def and_then_def makedirs_def to_crs_def alloc_def
      to_file_def names_directory_def logging_info_def emit_def Let_def split: option.splits)

lemma take_prefix_nth: "take (length xs) ys = xs \<Longrightarrow> i < length xs \<Longrightarrow> ys ! i = xs ! i"
  by (metis nth_take)

lemma shp_out_neq_json_out: "shp_out shp_path out_dir \<noteq> json_out shp_path out_dir"
  by (auto simp: shp_out_def json_out_def join_def sep_def hd_append)

lemma process_shapefile_InrE:
  assumes "process_shapefile L self shp_path out_dir w = (Inr (), w')"
  obtains gdf w1 updated w2 w3 where
    "read_file shp_path (emit (LogInfo (Processing shp_path)) w) = (Inr gdf, w1)"
    "update_z_values L self gdf w1 = (Inr updated, w2)"
    "export_shp L updated (shp_out shp_path out_dir) w2 = (Inr (), w3)"
    "export_geojson L updated (json_out shp_path out_dir) w3 = (Inr (), w')"
proof -
  from assms have "\<exists>gdf w1 updated w2 w3.
      read_file shp_path (emit (LogInfo (Processing shp_path)) w) = (Inr gdf, w1) \<and>
      update_z_values L self gdf w1 = (Inr updated, w2) \<and>
      export_shp L updated (shp_out shp_path out_dir) w2 = (Inr (), w3) \<and>
      export_geojson L updated (json_out shp_path out_dir) w3 = (Inr (), w')"
    by (auto simp: process_shapefile_def and_then_def logging_info_def
        split: prod.splits sum.splits)
  then show thesis
    by (elim exE conjE) (rule that)
qed

lemma export_geojson_trace:
  "\<exists>t. trace (snd (export_geojson L r p w)) = trace w @ MakeDirs (dirname p) # t"
  by (simp add: export_geojson_def and_then_def makedirs_def to_crs_def alloc_def to_file_def
      logging_info_def emit_def Let_def split: option.splits)

section \<open>The geometry rewriter\<close>

text \<open>
  Claim C1. For every pair of a geometry and a sampled elevation that the loop of
  \<^verbatim>\<open>update_z_values\<close> processes (the \<open>i\<close>-th geometry of the frame that the CRS
  reconciler returned, and the \<open>i\<close>-th sampled value): when the value is finite, the
  \<open>i\<close>-th output geometry is the 3D point with the x and y of the input point and the
  sampled value as z; when it is not finite, the output geometry is the input geometry
  itself, so a 2D point stays 2D. Every record of the frame has such a pair.
\<close>

theorem update_z_values_geometry:
  assumes "ensure_same_crs L self r w = (Inr g, w1)"
    and "sample_elevations self g w1 = (Inr zs, w2)"
    and "update_z_values L self r w = (Inr u, w')"
    and "i < length (rows (heap w1 ! g))"
  shows "i < length zs \<and>
     length (geometry_col (heap w' ! u)) = length (geometry_col (heap w1 ! g)) \<and>
     (isfinite (zs ! i) \<longrightarrow>
        (\<exists>x y. geom_x (geometry_col (heap w1 ! g) ! i) = Inr x \<and>
               geom_y (geometry_col (heap w1 ! g) ! i) = Inr y \<and>
               geometry_col (heap w' ! u) ! i = Point3D x y (zs ! i))) \<and>
     (\<not> isfinite (zs ! i) \<longrightarrow>
        geometry_col (heap w' ! u) ! i = geometry_col (heap w1 ! g) ! i \<and>
        (\<not> has_z (geometry_col (heap w1 ! g) ! i) \<longrightarrow>
           \<not> has_z (geometry_col (heap w' ! u) ! i)))"
proof -
  let ?gs = "geometry_col (heap w1 ! g)"
  from assms(3) obtain g' w1' coords ngs where
    e: "ensure_same_crs L self r w = (Inr g', w1')"
    and c: "for_each coord_of (geometry_col (heap w1' ! g')) = Inr coords"
    and n: "for_each new_geom
        (zip (geometry_col (heap w1' ! g')) (concat (sample (dem self) coords))) = Inr ngs"
    and l: "length ngs = length (rows (heap w1' ! g'))"
    and u: "u = length (heap w1')"
    and w': "w' = (emit (Sample (length coords)) w1')
       \<lparr>heap := heap w1' @ [(heap w1' ! g')\<lparr>rows := zip (map fst (rows (heap w1' ! g'))) ngs\<rparr>]\<rparr>"
    by (rule update_z_values_InrE)
  from e assms(1) have same: "g' = g" "w1' = w1"
    by simp_all
  note c = c [unfolded same] and n = n [unfolded same] and l = l [unfolded same]
    and u = u [unfolded same] and w' = w' [unfolded same]
  from assms(2) c have zs: "zs = concat (sample (dem self) coords)"
    by (simp add: sample_elevations_def)
  have out: "geometry_col (heap w' ! u) = ngs"
    using l by (simp add: u w' emit_def geometry_col_def)
  have "length (zip ?gs zs) = length ngs"
    using for_each_length [OF n] by (simp add: zs)
  with l assms(4) have iz: "i < length zs" and ig: "i < length (zip ?gs zs)"
    by (simp_all add: geometry_col_def)
  have "new_geom (zip ?gs zs ! i) = Inr (ngs ! i)"
    using for_each_nth [OF n [folded zs] ig] .
  with ig have ng: "new_geom (?gs ! i, zs ! i) = Inr (ngs ! i)"
    by simp
  show ?thesis
    unfolding out
    using iz l new_geom_finite [OF _ ng] new_geom_nonfinite [OF _ ng]
    by (auto simp: geometry_col_def)
qed

theorem update_z_values_geometry_witness:
  "ensure_same_crs ex_libs updater 0 world0 = (Inr 0, world0) \<and>
   sample_elevations updater 0 world0 =
     (Inr [Finite 100, NaN, Finite 100], emit (Sample 3) world0) \<and>
   fst (update_z_values ex_libs updater 0 world0) = Inr 4 \<and>
   isfinite (Finite 100) \<and> \<not> isfinite NaN \<and>
   geometry_col (heap (snd (update_z_values ex_libs updater 0 world0)) ! 4) ! 0 =
     Point3D (Finite 5) (Finite 5) (Finite 100) \<and>
   geometry_col (heap (snd (update_z_values ex_libs updater 0 world0)) ! 4) ! 1 =
     Point2D (Finite 1000) (Finite 1000) \<and>
   geometry_col (heap (snd (update_z_values ex_libs updater 0 world0)) ! 4) ! 2 =
     Point3D (Finite 2) (Finite 3) (Finite 100)"
proof -
  have e: "ensure_same_crs ex_libs updater 0 world0 = (Inr 0, world0)"
    by (simp add: run_defs ex_defs)
  have s: "sample_elevations updater 0 world0 =
      (Inr [Finite 100, NaN, Finite 100], emit (Sample 3) world0)"
    by (simp add: run_defs ex_defs upt_rec)
  have f: "fst (update_z_values ex_libs updater 0 world0) = Inr 4"
    by (simp add: run_defs ex_defs upt_rec)
  then have u: "update_z_values ex_libs updater 0 world0 =
      (Inr 4, snd (update_z_values ex_libs updater 0 world0))"
    by (simp add: prod_eq_iff)
  have gs: "geometry_col (heap world0 ! 0) =
      [Point2D (Finite 5) (Finite 5), Point2D (Finite 1000) (Finite 1000),
       Point3D (Finite 2) (Finite 3) (Finite 0)]"
    by (simp add: ex_defs geometry_col_def)
  have n: "length (rows (heap world0 ! 0)) = 3"
    by (simp add: ex_defs)
  have "0 < length (rows (heap world0 ! 0))" "1 < length (rows (heap world0 ! 0))"
    "2 < length (rows (heap world0 ! 0))"
    by (simp_all add: n)
  note t = this [THEN update_z_values_geometry [OF e s u]]
  from t e s f show ?thesis
    by (simp add: gs)
qed

section \<open>Records and their order\<close>

text \<open>
  Claim C2. Whenever \<^verbatim>\<open>update_z_values\<close> returns, the returned dataset has as many
  records as the input, and its attribute fields are those of the input, record by
  record in the same order; only the geometry column (and with it the CRS) may differ.
  It does return for every dataset of points whose CRS the reconciler can handle, on a
  DEM with at least one band.
\<close>

theorem update_z_values_preserves_records:
  "(\<forall>u w'. update_z_values L self r w = (Inr u, w') \<longrightarrow>
      length (rows (heap w' ! u)) = length (rows (heap w ! r)) \<and>
      attribute_cols (heap w' ! u) = attribute_cols (heap w ! r)) \<and>
   (list_all is_point (geometry_col (heap w ! r)) \<and>
    (crs (heap w ! r) = dem_crs (dem self) \<or>
     (crs (heap w ! r) \<noteq> None \<and> dem_crs (dem self) \<noteq> None)) \<and>
    (1 \<le> band_count (dem self) \<or> rows (heap w ! r) = []) \<longrightarrow>
      (\<exists>u w'. update_z_values L self r w = (Inr u, w')))"
proof (intro conjI allI impI)
  fix u w'
  assume a: "update_z_values L self r w = (Inr u, w')"
  from update_z_values_shape(1,2) [OF a]
  show "length (rows (heap w' ! u)) = length (rows (heap w ! r))"
    and "attribute_cols (heap w' ! u) = attribute_cols (heap w ! r)"
    by simp_all
next
  assume "list_all is_point (geometry_col (heap w ! r)) \<and>
    (crs (heap w ! r) = dem_crs (dem self) \<or>
     (crs (heap w ! r) \<noteq> None \<and> dem_crs (dem self) \<noteq> None)) \<and>
    (1 \<le> band_count (dem self) \<or> rows (heap w ! r) = [])"
  then have "\<exists>u. fst (update_z_values L self r w) = Inr u"
    by (intro update_z_values_total) simp_all
  then show "\<exists>u w'. update_z_values L self r w = (Inr u, w')"
    by (metis prod.collapse)
qed

theorem update_z_values_preserves_records_witness:
  "list_all is_point (geometry_col (heap world0 ! 1)) \<and>
   crs (heap world0 ! 1) = Some (EPSG 4326) \<and>
   dem_crs (dem updater) = Some (EPSG 32633) \<and>
   band_count (dem updater) = 1 \<and>
   fst (update_z_values ex_libs updater 1 world0) = Inr 5 \<and>
   length (rows (heap (snd (update_z_values ex_libs updater 1 world0)) ! 5)) = 3 \<and>
   attribute_cols (heap (snd (update_z_values ex_libs updater 1 world0)) ! 5) =
     [''a'', ''b'', ''c'']"
proof -
  have p: "list_all is_point (geometry_col (heap world0 ! 1))"
    and c: "crs (heap world0 ! 1) = Some (EPSG 4326)"
    and d: "dem_crs (dem updater) = Some (EPSG 32633)"
    and b: "band_count (dem updater) = 1"
    and a: "attribute_cols (heap world0 ! 1) = [''a'', ''b'', ''c'']"
    and n: "length (rows (heap world0 ! 1)) = 3"
    by (simp_all add: ex_defs geometry_col_def attribute_cols_def)
  note t = update_z_values_preserves_records [of ex_libs updater 1 world0]
  from t p c d b obtain u w' where u: "update_z_values ex_libs updater 1 world0 = (Inr u, w')"
    by auto
  have "fst (update_z_values ex_libs updater 1 world0) = Inr 5"
    by (simp add: run_defs ex_defs upt_rec)
  with u have "u = 5"
    by simp
  with t u a n p c d b show ?thesis
    by simp
qed

section \<open>The input dataset is left alone\<close>

text \<open>
  Claim C5. \<^verbatim>\<open>update_z_values\<close> does not mutate the dataset it is given. Whether it
  returns or raises, every object that existed before the call is afterwards what it was
  before (the old store is a prefix of the new one), in particular the input dataset with
  its records, attributes and geometries; and the dataset it returns is an object made
  during the call, a copy.
\<close>

theorem update_z_values_no_mutation:
  "take (length (heap w)) (heap (snd (update_z_values L self r w))) = heap w \<and>
   (r < length (heap w) \<longrightarrow> heap (snd (update_z_values L self r w)) ! r = heap w ! r) \<and>
   (\<forall>u. fst (update_z_values L self r w) = Inr u \<longrightarrow>
      length (heap w) \<le> u \<and> u < length (heap (snd (update_z_values L self r w))))"
proof (intro conjI allI impI)
  show k: "take (length (heap w)) (heap (snd (update_z_values L self r w))) = heap w"
    by (rule update_z_values_keeps)
  assume "r < length (heap w)"
  then have "take (length (heap w)) (heap (snd (update_z_values L self r w))) ! r =
      heap (snd (update_z_values L self r w)) ! r"
    by simp
  with k show "heap (snd (update_z_values L self r w)) ! r = heap w ! r"
    by simp
next
  fix u
  assume "fst (update_z_values L self r w) = Inr u"
  then have "update_z_values L self r w = (Inr u, snd (update_z_values L self r w))"
    by (simp add: prod_eq_iff)
  from update_z_values_shape(4,5) [OF this]
  show "length (heap w) \<le> u" and "u < length (heap (snd (update_z_values L self r w)))"
    by simp_all
qed

theorem update_z_values_no_mutation_witness:
  "0 < length (heap world0) \<and>
   fst (update_z_values ex_libs updater 0 world0) = Inr 4 \<and>
   length (heap world0) = 4 \<and>
   heap (snd (update_z_values ex_libs updater 0 world0)) ! 0 = pts \<and>
   take 4 (heap (snd (update_z_values ex_libs updater 0 world0))) = heap world0 \<and>
   4 < length (heap (snd (update_z_values ex_libs updater 0 world0)))"
proof -
  have l: "length (heap world0) = 4" and h: "heap world0 ! 0 = pts"
    by (simp_all add: ex_defs)
  have f: "fst (update_z_values ex_libs updater 0 world0) = Inr 4"
    by (simp add: run_defs ex_defs upt_rec)
  from update_z_values_no_mutation [of world0 ex_libs updater 0] l h f show ?thesis
    by simp
qed

section \<open>The CRS reconciler\<close>

text \<open>
  Claim C4. When the CRS of the dataset already equals the DEM's, the CRS reconciler is
  the identity: it returns the very reference it was given and the world as it was, so
  no data frame was made, nothing was logged and no reprojection call was recorded.
\<close>

theorem ensure_same_crs_passthrough:
  assumes "crs (heap w ! r) = dem_crs (dem self)"
  shows "ensure_same_crs L self r w = (Inr r, w) \<and>
     trace (snd (ensure_same_crs L self r w)) = trace w \<and>
     heap (snd (ensure_same_crs L self r w)) = heap w"
  using assms by (simp add: ensure_same_crs_def)

theorem ensure_same_crs_passthrough_witness:
  "crs (heap world0 ! 0) = dem_crs (dem updater) \<and>
   ensure_same_crs ex_libs updater 0 world0 = (Inr 0, world0) \<and>
   trace (snd (ensure_same_crs ex_libs updater 0 world0)) = []"
proof -
  have c: "crs (heap world0 ! 0) = dem_crs (dem updater)"
    by (simp add: ex_defs)
  have t: "trace world0 = []"
    by (simp add: ex_defs)
  from ensure_same_crs_passthrough [OF c, of ex_libs] c t show ?thesis
    by simp
qed

text \<open>
  Claim C3, as stated, says that on every mismatch, an undefined dataset CRS included,
  the reconciler returns the dataset reprojected to the DEM's CRS. It does not when the
  dataset has no CRS: the mismatch is detected, and the reprojection call raises.
\<close>

theorem ensure_same_crs_naive_counterexample:
  "crs (heap world0 ! 2) = None \<and>
   dem_crs (dem updater) = Some (EPSG 32633) \<and>
   crs (heap world0 ! 2) \<noteq> dem_crs (dem updater) \<and>
   fst (ensure_same_crs ex_libs updater 2 world0) = Inl ValueError"
  by (simp add: run_defs ex_defs)

text \<open>
  Claim C3, amended. When the CRS of the dataset and the CRS of the DEM are both defined
  and differ, the reconciler returns a new dataset in the DEM's CRS whose records are
  those of the input in order, every geometry reprojected to the DEM's CRS and every
  attribute unchanged. When the two CRSs are equal it passes the dataset through
  unchanged. When they differ and one of them is undefined, the mismatch is logged, the
  reprojection is called and raises \<^verbatim>\<open>ValueError\<close>: no dataset is returned.
\<close>

theorem ensure_same_crs_reconciles:
  "(crs (heap w ! r) = Some s \<and> dem_crs (dem self) = Some d \<and> s \<noteq> d \<longrightarrow>
      (\<exists>w1. ensure_same_crs L self r w = (Inr (length (heap w)), w1) \<and>
         heap w1 ! length (heap w) =
           \<lparr>crs = Some d, rows = map (\<lambda>(a, g). (a, reproject L s d g)) (rows (heap w ! r))\<rparr>)) \<and>
   (crs (heap w ! r) = dem_crs (dem self) \<longrightarrow> ensure_same_crs L self r w = (Inr r, w)) \<and>
   (crs (heap w ! r) \<noteq> dem_crs (dem self) \<and>
    (crs (heap w ! r) = None \<or> dem_crs (dem self) = None) \<longrightarrow>
      ensure_same_crs L self r w =
        (Inl ValueError, emit (ToCrs (dem_crs (dem self))) (emit (LogInfo CrsMismatch) w)))"
  by (auto simp: ensure_same_crs_def and_then_def logging_info_def to_crs_def alloc_def emit_def
      Let_def split: option.splits)

theorem ensure_same_crs_reconciles_witness:
  "crs (heap world0 ! 1) = Some (EPSG 4326) \<and>
   dem_crs (dem updater) = Some (EPSG 32633) \<and>
   fst (ensure_same_crs ex_libs updater 1 world0) = Inr 4 \<and>
   heap (snd (ensure_same_crs ex_libs updater 1 world0)) ! 4 =
     \<lparr>crs = Some (EPSG 32633),
      rows = [(''a'', Point2D (Finite 5) (Finite 5)),
              (''b'', Point2D (Finite 1000) (Finite 1000)),
              (''c'', Point3D (Finite 3) (Finite 2) (Finite 0))]\<rparr> \<and>
   ensure_same_crs ex_libs updater 0 world0 = (Inr 0, world0) \<and>
   ensure_same_crs ex_libs updater 2 world0 =
     (Inl ValueError,
      emit (ToCrs (Some (EPSG 32633))) (emit (LogInfo CrsMismatch) world0))"
proof -
  have c: "crs (heap world0 ! 1) = Some (EPSG 4326)"
    and d: "dem_crs (dem updater) = Some (EPSG 32633)"
    and c0: "crs (heap world0 ! 0) = Some (EPSG 32633)"
    and c2: "crs (heap world0 ! 2) = None"
    and l: "length (heap world0) = 4"
    and rs: "rows (heap world0 ! 1) =
      [(''a'', Point2D (Finite 5) (Finite 5)), (''b'', Point2D (Finite 1000) (Finite 1000)),
       (''c'', Point3D (Finite 2) (Finite 3) (Finite 0))]"
    by (simp_all add: ex_defs)
  have t: "transform2 ex_libs s d (x, y) = (y, x)" "transform3 ex_libs s d (x, y, z) = (y, x, z)"
    for s d x y z
    by (simp_all add: ex_libs_def)
  note a = ensure_same_crs_reconciles [of world0 1 "EPSG 4326" updater "EPSG 32633" ex_libs]
    and b = ensure_same_crs_reconciles [of world0 0 _ updater _ ex_libs]
    and e = ensure_same_crs_reconciles [of world0 2 _ updater _ ex_libs]
  from a c d l rs t obtain w1 where
    "ensure_same_crs ex_libs updater 1 world0 = (Inr 4, w1)"
    "heap w1 ! 4 = \<lparr>crs = Some (EPSG 32633),
      rows = [(''a'', Point2D (Finite 5) (Finite 5)),
              (''b'', Point2D (Finite 1000) (Finite 1000)),
              (''c'', Point3D (Finite 3) (Finite 2) (Finite 0))]\<rparr>"
    by auto
  with b e c d c0 c2 show ?thesis
    by simp
qed

section \<open>The empty dataset\<close>

text \<open>
  Claim C9, as stated, says that for every empty dataset \<^verbatim>\<open>update_z_values\<close> returns an
  empty dataset and raises no error. An empty dataset without a CRS, on a DEM that has
  one, makes the CRS reconciler raise before anything is sampled.
\<close>

theorem update_z_values_empty_naive_counterexample:
  "rows (heap world0 ! 3) = [] \<and>
   fst (sample_elevations updater 3 world0) = Inr [] \<and>
   fst (update_z_values ex_libs updater 3 world0) = Inl ValueError"
  by (simp add: run_defs ex_defs)

text \<open>
  Claim C9, amended. For a dataset of zero records, elevation sampling returns the empty
  array without an error; and \<^verbatim>\<open>update_z_values\<close> returns a dataset of zero records
  without an error whenever the CRS of the dataset equals the DEM's or both are defined.
\<close>

theorem update_z_values_empty:
  assumes "rows (heap w ! r) = []"
  shows "sample_elevations self r w = (Inr [], emit (Sample 0) w) \<and>
     (crs (heap w ! r) = dem_crs (dem self) \<or>
      (crs (heap w ! r) \<noteq> None \<and> dem_crs (dem self) \<noteq> None) \<longrightarrow>
        (\<exists>u w'. update_z_values L self r w = (Inr u, w') \<and> rows (heap w' ! u) = []))"
proof (intro conjI impI)
  show "sample_elevations self r w = (Inr [], emit (Sample 0) w)"
    using assms by (simp add: sample_elevations_def geometry_col_def sample_def)
  assume c: "crs (heap w ! r) = dem_crs (dem self) \<or>
      (crs (heap w ! r) \<noteq> None \<and> dem_crs (dem self) \<noteq> None)"
  have "\<exists>u. fst (update_z_values L self r w) = Inr u"
    using assms c by (intro update_z_values_total) (simp_all add: geometry_col_def)
  then obtain u w' where u: "update_z_values L self r w = (Inr u, w')"
    by (metis prod.collapse)
  from update_z_values_shape(2) [OF u] assms have "rows (heap w' ! u) = []"
    by simp
  with u show "\<exists>u w'. update_z_values L self r w = (Inr u, w') \<and> rows (heap w' ! u) = []"
    by blast
qed

theorem update_z_values_empty_witness:
  "rows (heap world0 ! 3) = [] \<and>
   crs (heap world0 ! 3) = dem_crs (dem bare_updater) \<and>
   sample_elevations bare_updater 3 world0 = (Inr [], emit (Sample 0) world0) \<and>
   fst (update_z_values ex_libs bare_updater 3 world0) = Inr 4 \<and>
   rows (heap (snd (update_z_values ex_libs bare_updater 3 world0)) ! 4) = []"
proof -
  have r: "rows (heap world0 ! 3) = []"
    and c: "crs (heap world0 ! 3) = dem_crs (dem bare_updater)"
    by (simp_all add: ex_defs)
  have f: "fst (update_z_values ex_libs bare_updater 3 world0) = Inr 4"
    by (simp add: run_defs ex_defs)
  from update_z_values_empty [OF r, of bare_updater ex_libs] c
  obtain u w' where s: "sample_elevations bare_updater 3 world0 = (Inr [], emit (Sample 0) world0)"
    and u: "update_z_values ex_libs bare_updater 3 world0 = (Inr u, w')"
    and e: "rows (heap w' ! u) = []"
    by auto
  from u f have "u = 4"
    by simp
  with r c s u e f show ?thesis
    by simp
qed

section \<open>The exporters\<close>

text \<open>
  Claim C10. \<^verbatim>\<open>export_geojson\<close> leaves the caller's dataset as it was: the
  reprojection to EPSG:4326 makes a new object, bound to the local name only. Whether the
  export succeeds or raises, every object that existed before the call is unchanged
  afterwards, so the caller's dataset keeps its CRS and its geometries.
\<close>

theorem export_geojson_no_mutation:
  "take (length (heap w)) (heap (snd (export_geojson L r p w))) = heap w \<and>
   (r < length (heap w) \<longrightarrow>
      heap (snd (export_geojson L r p w)) ! r = heap w ! r \<and>
      crs (heap (snd (export_geojson L r p w)) ! r) = crs (heap w ! r) \<and>
      geometry_col (heap (snd (export_geojson L r p w)) ! r) = geometry_col (heap w ! r))"
proof -
  have k: "take (length (heap w)) (heap (snd (export_geojson L r p w))) = heap w"
    by (rule export_geojson_keeps)
  have "heap (snd (export_geojson L r p w)) ! r = heap w ! r" if "r < length (heap w)"
  proof -
    from that have "take (length (heap w)) (heap (snd (export_geojson L r p w))) ! r =
        heap (snd (export_geojson L r p w)) ! r"
      by simp
    with k show ?thesis
      by simp
  qed
  with k show ?thesis
    by simp
qed

theorem export_geojson_no_mutation_witness:
  "0 < length (heap world0) \<and>
   fst (export_geojson ex_libs 0 ''out_z/pts_Z.geojson'' world0) = Inr () \<and>
   heap (snd (export_geojson ex_libs 0 ''out_z/pts_Z.geojson'' world0)) ! 0 = pts \<and>
   crs (heap (snd (export_geojson ex_libs 0 ''out_z/pts_Z.geojson'' world0)) ! 0) =
     Some (EPSG 32633) \<and>
   crs (heap (snd (export_geojson ex_libs 0 ''out_z/pts_Z.geojson'' world0)) ! 4) =
     Some (EPSG 4326)"
proof -
  have l: "0 < length (heap world0)" and h: "heap world0 ! 0 = pts"
    and c: "crs pts = Some (EPSG 32633)"
    by (simp_all add: ex_defs)
  have f: "fst (export_geojson ex_libs 0 ''out_z/pts_Z.geojson'' world0) = Inr ()"
    by (simp add: run_defs path_defs ex_defs)
  have n: "crs (heap (snd (export_geojson ex_libs 0 ''out_z/pts_Z.geojson'' world0)) ! 4) =
      Some (EPSG 4326)"
    by (simp add: run_defs path_defs ex_defs)
  from export_geojson_no_mutation [of world0 ex_libs 0 "''out_z/pts_Z.geojson''"] l h c f n
  show ?thesis
    by simp
qed

text \<open>
  Claim C6. A successful shapefile export hands the dataset as it is, in the CRS it has
  and not reprojected, to the writer of driver \<^verbatim>\<open>ESRI Shapefile\<close> with encoding
  \<^verbatim>\<open>utf-8\<close>: the file holds what that writer stores of the caller's dataset, with the
  dataset's CRS, its attributes in order and the x and y of every point (what becomes of
  a missing z is the format's matter). A successful GeoJSON export writes, with driver
  \<^verbatim>\<open>GeoJSON\<close> and encoding \<^verbatim>\<open>utf-8\<close>, the dataset reprojected to EPSG:4326. The
  two are independent: a shapefile export that follows a GeoJSON export of the same
  dataset, whatever that one's outcome, is handed the dataset as it was before and
  writes it in the CRS it had. In the single-file driver, where the exported dataset is
  the result of \<^verbatim>\<open>update_z_values\<close>, the shapefile is therefore in the DEM's CRS and
  the GeoJSON file in EPSG:4326, with the same records.
\<close>

theorem exports_crs:
  "(export_shp L r p w = (Inr (), w') \<longrightarrow>
      (\<exists>f. files w' p =
             Some \<lparr>driver = ''ESRI Shapefile'', encoding = ''utf-8'', content = f\<rparr> \<and>
           f = written ''ESRI Shapefile'' (heap w ! r) \<and>
           crs f = crs (heap w ! r) \<and>
           attribute_cols f = attribute_cols (heap w ! r) \<and>
           map geom_x (geometry_col f) = map geom_x (geometry_col (heap w ! r)) \<and>
           map geom_y (geometry_col f) = map geom_y (geometry_col (heap w ! r)))) \<and>
   (export_geojson L r p w = (Inr (), w') \<longrightarrow>
      (\<exists>s. crs (heap w ! r) = Some s \<and>
         files w' p =
           Some \<lparr>driver = ''GeoJSON'', encoding = ''utf-8'',
             content = \<lparr>crs = Some (EPSG 4326),
               rows = map (\<lambda>(a, g). (a, if s = EPSG 4326 then g else reproject L s (EPSG 4326) g))
                        (rows (heap w ! r))\<rparr>\<rparr>)) \<and>
   (r < length (heap w) \<and> export_geojson L r q w = (res, wg) \<and>
    export_shp L r p wg = (Inr (), ws) \<longrightarrow>
      (\<exists>f. files ws p =
             Some \<lparr>driver = ''ESRI Shapefile'', encoding = ''utf-8'', content = f\<rparr> \<and>
           f = written ''ESRI Shapefile'' (heap w ! r) \<and>
           crs f = crs (heap w ! r))) \<and>
   (process_shapefile L self shp_path out_dir w = (Inr (), w') \<longrightarrow>
      (\<exists>f f'.
         files w' (shp_out shp_path out_dir) =
           Some \<lparr>driver = ''ESRI Shapefile'', encoding = ''utf-8'', content = f\<rparr> \<and>
         crs f = dem_crs (dem self) \<and>
         files w' (json_out shp_path out_dir) =
           Some \<lparr>driver = ''GeoJSON'', encoding = ''utf-8'', content = f'\<rparr> \<and>
         crs f' = Some (EPSG 4326) \<and>
         attribute_cols f' = attribute_cols f))"
proof (intro conjI impI)
  assume "export_shp L r p w = (Inr (), w')"
  from export_shp_Inr(1) [OF this]
  show "\<exists>f. files w' p =
        Some \<lparr>driver = ''ESRI Shapefile'', encoding = ''utf-8'', content = f\<rparr> \<and>
      f = written ''ESRI Shapefile'' (heap w ! r) \<and>
      crs f = crs (heap w ! r) \<and>
      attribute_cols f = attribute_cols (heap w ! r) \<and>
      map geom_x (geometry_col f) = map geom_x (geometry_col (heap w ! r)) \<and>
      map geom_y (geometry_col f) = map geom_y (geometry_col (heap w ! r))"
    by (simp add: crs_written attribute_cols_written geom_xy_written)
next
  assume "export_geojson L r p w = (Inr (), w')"
  from export_geojson_Inr(1) [OF this]
  show "\<exists>s. crs (heap w ! r) = Some s \<and>
     files w' p =
       Some \<lparr>driver = ''GeoJSON'', encoding = ''utf-8'',
         content = \<lparr>crs = Some (EPSG 4326),
           rows = map (\<lambda>(a, g). (a, if s = EPSG 4326 then g else reproject L s (EPSG 4326) g))
                    (rows (heap w ! r))\<rparr>\<rparr>"
    by auto
next
  assume a: "r < length (heap w) \<and> export_geojson L r q w = (res, wg) \<and>
    export_shp L r p wg = (Inr (), ws)"
  from take_prefix_nth [OF export_geojson_keeps [of w L r q]] a have "heap wg ! r = heap w ! r"
    by simp
  with export_shp_Inr(1) [of L r p wg ws] a
  show "\<exists>f. files ws p =
        Some \<lparr>driver = ''ESRI Shapefile'', encoding = ''utf-8'', content = f\<rparr> \<and>
      f = written ''ESRI Shapefile'' (heap w ! r) \<and>
      crs f = crs (heap w ! r)"
    by (simp add: crs_written)
next
  assume "process_shapefile L self shp_path out_dir w = (Inr (), w')"
  then obtain gdf w1 updated w2 w3 where
    rd: "read_file shp_path (emit (LogInfo (Processing shp_path)) w) = (Inr gdf, w1)"
    and up: "update_z_values L self gdf w1 = (Inr updated, w2)"
    and es: "export_shp L updated (shp_out shp_path out_dir) w2 = (Inr (), w3)"
    and eg: "export_geojson L updated (json_out shp_path out_dir) w3 = (Inr (), w')"
    by (rule process_shapefile_InrE)
  let ?u = "heap w2 ! updated"
  let ?f = "written ''ESRI Shapefile'' ?u"
  have h3: "heap w3 = heap w2"
    using export_shp_heap [of L updated "shp_out shp_path out_dir" w2] es by simp
  from export_geojson_Inr(1) [OF eg] obtain s where
    s: "crs (heap w3 ! updated) = Some s"
    and fj: "files w' = (files w3)(json_out shp_path out_dir \<mapsto>
        \<lparr>driver = ''GeoJSON'', encoding = ''utf-8'',
         content = \<lparr>crs = Some (EPSG 4326),
           rows = map (\<lambda>(a, g). (a, if s = EPSG 4326 then g else reproject L s (EPSG 4326) g))
                    (rows (heap w3 ! updated))\<rparr>\<rparr>)"
    by blast
  let ?f' = "\<lparr>crs = Some (EPSG 4326),
           rows = map (\<lambda>(a, g). (a, if s = EPSG 4326 then g else reproject L s (EPSG 4326) g))
                    (rows ?u)\<rparr>"
  have 1: "files w' (shp_out shp_path out_dir) =
      Some \<lparr>driver = ''ESRI Shapefile'', encoding = ''utf-8'', content = ?f\<rparr>"
    using export_shp_Inr(1) [OF es] shp_out_neq_json_out [of shp_path out_dir]
    by (simp add: fj)
  have 2: "crs ?f = dem_crs (dem self)"
    using update_z_values_shape(3) [OF up] by (simp add: crs_written)
  have 3: "files w' (json_out shp_path out_dir) =
      Some \<lparr>driver = ''GeoJSON'', encoding = ''utf-8'', content = ?f'\<rparr>"
    by (simp add: fj h3)
  have 4: "attribute_cols ?f' = attribute_cols ?f"
    by (simp add: attribute_cols_written) (simp add: attribute_cols_def split_def comp_def)
  from 1 2 3 4 show "\<exists>f f'.
     files w' (shp_out shp_path out_dir) =
       Some \<lparr>driver = ''ESRI Shapefile'', encoding = ''utf-8'', content = f\<rparr> \<and>
     crs f = dem_crs (dem self) \<and>
     files w' (json_out shp_path out_dir) =
       Some \<lparr>driver = ''GeoJSON'', encoding = ''utf-8'', content = f'\<rparr> \<and>
     crs f' = Some (EPSG 4326) \<and>
     attribute_cols f' = attribute_cols f"
    by (intro exI [of _ ?f] exI [of _ ?f']) simp
qed

theorem exports_crs_witness:
  "fst (process_shapefile ex_libs updater ''in/pts.shp'' ''out_z'' world0) = Inr () \<and>
   dem_crs (dem updater) = Some (EPSG 32633) \<and>
   shp_out ''in/pts.shp'' ''out_z'' = ''out_z/pts_Z.shp'' \<and>
   json_out ''in/pts.shp'' ''out_z'' = ''out_z/pts_Z.geojson'' \<and>
   (\<exists>f f'.
      files (snd (process_shapefile ex_libs updater ''in/pts.shp'' ''out_z'' world0))
        ''out_z/pts_Z.shp'' =
        Some \<lparr>driver = ''ESRI Shapefile'', encoding = ''utf-8'', content = f\<rparr> \<and>
      crs f = Some (EPSG 32633) \<and>
      files (snd (process_shapefile ex_libs updater ''in/pts.shp'' ''out_z'' world0))
        ''out_z/pts_Z.geojson'' =
        Some \<lparr>driver = ''GeoJSON'', encoding = ''utf-8'', content = f'\<rparr> \<and>
      crs f' = Some (EPSG 4326)) \<and>
   fst (export_geojson ex_libs 0 ''out_z/pts_Z.geojson'' world0) = Inr () \<and>
   files (snd (export_geojson ex_libs 0 ''out_z/pts_Z.geojson'' world0)) ''out_z/pts_Z.geojson'' =
     Some \<lparr>driver = ''GeoJSON'', encoding = ''utf-8'',
       content = \<lparr>crs = Some (EPSG 4326),
         rows = [(''a'', Point2D (Finite 5) (Finite 5)),
                 (''b'', Point2D (Finite 1000) (Finite 1000)),
                 (''c'', Point3D (Finite 3) (Finite 2) (Finite 0))]\<rparr>\<rparr> \<and>
   fst (export_shp ex_libs 0 ''out_z/pts_Z.shp''
         (snd (export_geojson ex_libs 0 ''out_z/pts_Z.geojson'' world0))) = Inr () \<and>
   files (snd (export_shp ex_libs 0 ''out_z/pts_Z.shp''
         (snd (export_geojson ex_libs 0 ''out_z/pts_Z.geojson'' world0)))) ''out_z/pts_Z.shp'' =
     Some \<lparr>driver = ''ESRI Shapefile'', encoding = ''utf-8'',
       content = \<lparr>crs = Some (EPSG 32633),
         rows = [(''a'', Point3D (Finite 5) (Finite 5) (Finite 0)),
                 (''b'', Point3D (Finite 1000) (Finite 1000) (Finite 0)),
                 (''c'', Point3D (Finite 2) (Finite 3) (Finite 0))]\<rparr>\<rparr>"
proof -
  let ?run = "process_shapefile ex_libs updater ''in/pts.shp'' ''out_z'' world0"
  let ?w1 = "snd (export_geojson ex_libs 0 ''out_z/pts_Z.geojson'' world0)"
  let ?w2 = "snd (export_shp ex_libs 0 ''out_z/pts_Z.shp'' ?w1)"
  have s: "shp_out ''in/pts.shp'' ''out_z'' = ''out_z/pts_Z.shp''"
    and j: "json_out ''in/pts.shp'' ''out_z'' = ''out_z/pts_Z.geojson''"
    by (simp_all add: path_defs)
  have d: "dem_crs (dem updater) = Some (EPSG 32633)"
    and l: "0 < length (heap world0)" and h: "heap world0 ! 0 = pts"
    by (simp_all add: ex_defs)
  have wr: "written ''ESRI Shapefile'' pts =
      \<lparr>crs = Some (EPSG 32633),
       rows = [(''a'', Point3D (Finite 5) (Finite 5) (Finite 0)),
               (''b'', Point3D (Finite 1000) (Finite 1000) (Finite 0)),
               (''c'', Point3D (Finite 2) (Finite 3) (Finite 0))]\<rparr>"
    by (simp add: written_def geometry_col_def pts_def)
  have run: "fst ?run = Inr ()"
    by (simp add: run_defs path_defs ex_defs upt_rec)
  then have r: "?run = (Inr (), snd ?run)"
    by (simp add: prod_eq_iff)
  have g: "fst (export_geojson ex_libs 0 ''out_z/pts_Z.geojson'' world0) = Inr ()"
    by (simp add: run_defs path_defs ex_defs)
  then have g': "export_geojson ex_libs 0 ''out_z/pts_Z.geojson'' world0 = (Inr (), ?w1)"
    by (simp add: prod_eq_iff)
  have e: "fst (export_shp ex_libs 0 ''out_z/pts_Z.shp'' ?w1) = Inr ()"
    by (simp add: run_defs path_defs ex_defs)
  then have e': "export_shp ex_libs 0 ''out_z/pts_Z.shp'' ?w1 = (Inr (), ?w2)"
    by (simp add: prod_eq_iff)
  have f2: "files ?w1 ''out_z/pts_Z.geojson'' =
      Some \<lparr>driver = ''GeoJSON'', encoding = ''utf-8'',
        content = \<lparr>crs = Some (EPSG 4326),
          rows = [(''a'', Point2D (Finite 5) (Finite 5)),
                  (''b'', Point2D (Finite 1000) (Finite 1000)),
                  (''c'', Point3D (Finite 3) (Finite 2) (Finite 0))]\<rparr>\<rparr>"
    using exports_crs [where L = ex_libs and r = 0 and w = world0 and w' = ?w1
        and p = "''out_z/pts_Z.geojson''", THEN conjunct2, THEN conjunct1] g'
    by (auto simp: ex_defs)
  have f3: "files ?w2 ''out_z/pts_Z.shp'' =
      Some \<lparr>driver = ''ESRI Shapefile'', encoding = ''utf-8'',
        content = written ''ESRI Shapefile'' pts\<rparr>"
    using exports_crs [where L = ex_libs and r = 0 and w = world0
        and q = "''out_z/pts_Z.geojson''" and res = "Inr ()" and wg = ?w1
        and p = "''out_z/pts_Z.shp''" and ws = ?w2,
        THEN conjunct2, THEN conjunct2, THEN conjunct1] g' e' l h
    by auto
  have f4: "\<exists>f f'.
      files (snd ?run) ''out_z/pts_Z.shp'' =
        Some \<lparr>driver = ''ESRI Shapefile'', encoding = ''utf-8'', content = f\<rparr> \<and>
      crs f = Some (EPSG 32633) \<and>
      files (snd ?run) ''out_z/pts_Z.geojson'' =
        Some \<lparr>driver = ''GeoJSON'', encoding = ''utf-8'', content = f'\<rparr> \<and>
      crs f' = Some (EPSG 4326)"
    using exports_crs [where L = ex_libs and w = world0 and w' = "snd ?run" and self = updater
        and shp_path = "''in/pts.shp''" and out_dir = "''out_z''",
        THEN conjunct2, THEN conjunct2, THEN conjunct2] r
    unfolding s j d
    by blast
  from f2 f3 [unfolded wr] f4 d s j run g e show ?thesis
    by simp
qed

text \<open>
  Claim C7 says that for every output path each export makes sure that the destination
  directory exists, without an error when it already does, and then writes the file. For
  an output path without a directory part, such as a bare file name, the destination is
  the current directory, which exists; but \<^verbatim>\<open>os.path.dirname\<close> is then the empty
  string, \<^verbatim>\<open>os.makedirs\<close> refuses it, and both exports raise
  \<^verbatim>\<open>FileNotFoundError\<close> and write nothing. (With a directory part that can be made,
  and a path that does not itself name a directory, \<open>export_shp_succeeds\<close> and
  \<open>export_shp_Inr\<close> give what the claim says.)
\<close>

theorem export_bare_file_name:
  assumes "dirname p = []"
  shows "fst (export_shp L r p w) = Inl FileNotFoundError \<and>
     files (snd (export_shp L r p w)) = files w \<and>
     dirs (snd (export_shp L r p w)) = dirs w \<and>
     fst (export_geojson L r p w) = Inl FileNotFoundError \<and>
     files (snd (export_geojson L r p w)) = files w \<and>
     dirs (snd (export_geojson L r p w)) = dirs w"
  using assms
  by (simp add: export_shp_def export_geojson_def and_then_def makedirs_def emit_def)

theorem export_bare_file_name_witness:
  "dirname ''points_Z.shp'' = [] \<and>
   fst (export_shp ex_libs 0 ''points_Z.shp'' world0) = Inl FileNotFoundError \<and>
   files (snd (export_shp ex_libs 0 ''points_Z.shp'' world0)) ''points_Z.shp'' = None \<and>
   fst (export_geojson ex_libs 0 ''points_Z.shp'' world0) = Inl FileNotFoundError \<and>
   join [] ''points_Z.shp'' = ''points_Z.shp''"
proof -
  have d: "dirname ''points_Z.shp'' = []" and j: "join [] ''points_Z.shp'' = ''points_Z.shp''"
    by (simp_all add: path_defs)
  have f: "files world0 ''points_Z.shp'' = None"
    by (simp add: ex_defs)
  from export_bare_file_name [OF d, of ex_libs 0 world0] d f j show ?thesis
    by simp
qed

section \<open>The single-file driver\<close>

text \<open>
  Claim C8. In \<^verbatim>\<open>process_shapefile\<close>, once the file is read and the elevations are
  assigned, the shapefile export runs first: when it raises, that error is the outcome
  and the GeoJSON export is not attempted. When the shapefile export succeeds and the
  GeoJSON export then raises, that error is the outcome of the driver, the shapefile
  written before is still on disk with the updated dataset, and the trace shows the
  shapefile export complete before the GeoJSON export begins.
\<close>

theorem process_shapefile_no_rollback:
  assumes "read_file shp_path (emit (LogInfo (Processing shp_path)) w) = (Inr gdf, w1)"
    and "update_z_values L self gdf w1 = (Inr updated, w2)"
  shows "(export_shp L updated (shp_out shp_path out_dir) w2 = (Inl e, ws) \<longrightarrow>
        process_shapefile L self shp_path out_dir w = (Inl e, ws)) \<and>
     (export_shp L updated (shp_out shp_path out_dir) w2 = (Inr (), ws) \<and>
      export_geojson L updated (json_out shp_path out_dir) ws = (Inl e, wg) \<longrightarrow>
        process_shapefile L self shp_path out_dir w = (Inl e, wg) \<and>
        files wg (shp_out shp_path out_dir) =
          Some \<lparr>driver = ''ESRI Shapefile'', encoding = ''utf-8'',
                content = written ''ESRI Shapefile'' (heap w2 ! updated)\<rparr> \<and>
        (\<exists>t. trace wg = trace w2 @
           [MakeDirs (dirname (shp_out shp_path out_dir)),
            ToFile ''ESRI Shapefile'' (shp_out shp_path out_dir),
            LogInfo (ShapefileExported (shp_out shp_path out_dir))] @
           MakeDirs (dirname (json_out shp_path out_dir)) # t))"
proof (intro conjI impI)
  assume "export_shp L updated (shp_out shp_path out_dir) w2 = (Inl e, ws)"
  with assms show "process_shapefile L self shp_path out_dir w = (Inl e, ws)"
    by (simp add: process_shapefile_def and_then_def logging_info_def)
next
  assume a: "export_shp L updated (shp_out shp_path out_dir) w2 = (Inr (), ws) \<and>
      export_geojson L updated (json_out shp_path out_dir) ws = (Inl e, wg)"
  then have es: "export_shp L updated (shp_out shp_path out_dir) w2 = (Inr (), ws)"
    and eg: "export_geojson L updated (json_out shp_path out_dir) ws = (Inl e, wg)"
    by simp_all
  from assms es eg show "process_shapefile L self shp_path out_dir w = (Inl e, wg)"
    by (simp add: process_shapefile_def and_then_def logging_info_def)
  from export_shp_Inr(1) [OF es] export_geojson_Inl [OF eg]
  show "files wg (shp_out shp_path out_dir) =
      Some \<lparr>driver = ''ESRI Shapefile'', encoding = ''utf-8'',
        content = written ''ESRI Shapefile'' (heap w2 ! updated)\<rparr>"
    by simp
  from export_geojson_trace [of L updated "json_out shp_path out_dir" ws] eg
  obtain t where "trace wg = trace ws @ MakeDirs (dirname (json_out shp_path out_dir)) # t"
    by auto
  with export_shp_Inr(3) [OF es]
  show "\<exists>t. trace wg = trace w2 @
       [MakeDirs (dirname (shp_out shp_path out_dir)),
        ToFile ''ESRI Shapefile'' (shp_out shp_path out_dir),
        LogInfo (ShapefileExported (shp_out shp_path out_dir))] @
       MakeDirs (dirname (json_out shp_path out_dir)) # t"
    by simp
qed

theorem process_shapefile_no_rollback_witness:
  "fst (process_shapefile ex_libs bare_updater ''in/naive.shp'' ''out_z'' world0) =
     Inl ValueError \<and>
   shp_out ''in/naive.shp'' ''out_z'' = ''out_z/naive_Z.shp'' \<and>
   json_out ''in/naive.shp'' ''out_z'' = ''out_z/naive_Z.geojson'' \<and>
   files world0 ''out_z/naive_Z.shp'' = None \<and>
   files (snd (process_shapefile ex_libs bare_updater ''in/naive.shp'' ''out_z'' world0))
     ''out_z/naive_Z.shp'' =
     Some \<lparr>driver = ''ESRI Shapefile'', encoding = ''utf-8'',
       content = \<lparr>crs = None,
         rows = [(''a'', Point3D (Finite 5) (Finite 5) (Finite 100)),
                 (''b'', Point3D (Finite 1000) (Finite 1000) (Finite 0)),
                 (''c'', Point3D (Finite 2) (Finite 3) (Finite 100))]\<rparr>\<rparr> \<and>
   files (snd (process_shapefile ex_libs bare_updater ''in/naive.shp'' ''out_z'' world0))
     ''out_z/naive_Z.geojson'' = None"
proof -
  let ?run = "process_shapefile ex_libs bare_updater ''in/naive.shp'' ''out_z'' world0"
  let ?rd = "read_file ''in/naive.shp'' (emit (LogInfo (Processing ''in/naive.shp'')) world0)"
  let ?up = "update_z_values ex_libs bare_updater 4 (snd ?rd)"
  let ?es = "export_shp ex_libs 5 ''out_z/naive_Z.shp'' (snd ?up)"
  let ?eg = "export_geojson ex_libs 5 ''out_z/naive_Z.geojson'' (snd ?es)"
  have s: "shp_out ''in/naive.shp'' ''out_z'' = ''out_z/naive_Z.shp''"
    and j: "json_out ''in/naive.shp'' ''out_z'' = ''out_z/naive_Z.geojson''"
    by (simp_all add: path_defs)
  have n: "files world0 ''out_z/naive_Z.shp'' = None"
    by (simp add: ex_defs)
  have "fst ?rd = Inr 4"
    by (simp add: run_defs ex_defs)
  then have rd: "?rd = (Inr 4, snd ?rd)"
    by (simp add: prod_eq_iff)
  have "fst ?up = Inr 5"
    by (simp add: run_defs ex_defs upt_rec)
  then have up: "?up = (Inr 5, snd ?up)"
    by (simp add: prod_eq_iff)
  have "fst ?es = Inr ()"
    by (simp add: run_defs path_defs ex_defs upt_rec)
  then have es: "?es = (Inr (), snd ?es)"
    by (simp add: prod_eq_iff)
  have "fst ?eg = Inl ValueError"
    by (simp add: run_defs path_defs ex_defs upt_rec)
  then have eg: "?eg = (Inl ValueError, snd ?eg)"
    by (simp add: prod_eq_iff)
  have h: "written ''ESRI Shapefile'' (heap (snd ?up) ! 5) =
      \<lparr>crs = None,
       rows = [(''a'', Point3D (Finite 5) (Finite 5) (Finite 100)),
               (''b'', Point3D (Finite 1000) (Finite 1000) (Finite 0)),
               (''c'', Point3D (Finite 2) (Finite 3) (Finite 100))]\<rparr>"
    by (simp add: run_defs ex_defs upt_rec)
  have g: "files (snd ?eg) ''out_z/naive_Z.geojson'' = None"
    by (simp add: run_defs path_defs ex_defs upt_rec)
  note t = process_shapefile_no_rollback [OF rd up, where out_dir = "''out_z''"
      and e = ValueError and ws = "snd ?es" and wg = "snd ?eg", unfolded s j,
      THEN conjunct2]
  from t es eg have "?run = (Inl ValueError, snd ?eg)"
    and "files (snd ?eg) ''out_z/naive_Z.shp'' =
      Some \<lparr>driver = ''ESRI Shapefile'', encoding = ''utf-8'',
        content = written ''ESRI Shapefile'' (heap (snd ?up) ! 5)\<rparr>"
    by simp_all
  with h g s j n show ?thesis
    by simp
qed

end
